theory Spec2Isabelle
  imports Main "HOL-Library.Word"
begin

section \<open>Data model\<close>

text \<open>
  The Kubernetes objects the controller reads and writes, reduced to the fields the code
  touches. A Go \<open>map[string]string\<close> is an association list, a Go pointer is an
  \<open>option\<close> (\<open>None\<close> is the nil pointer), an \<open>int32\<close> is a 32-bit word.
\<close>

type_synonym labels = "(string \<times> string) list"

record deployment =
  depName :: string
  depNamespace :: string
  depTemplateLabels :: labels

record servicePort =
  spName :: string
  spPort :: "32 word"

record service =
  svcName :: string
  svcNamespace :: string
  svcSelector :: labels
  svcPorts :: "servicePort list"

record ingressServiceBackend =
  isbName :: string
  isbPortNumber :: "32 word"

record httpIngressPath =
  hipPath :: string
  hipPathType :: "string option"
  hipBackendService :: "ingressServiceBackend option"

record ingressRule =
  irHTTP :: "httpIngressPath list option"

record ingress =
  ingName :: string
  ingNamespace :: string
  ingAnnotations :: labels
  ingRules :: "ingressRule list"

text \<open>
  Go errors are values. The API error kinds are the ones of the cluster interface; the two
  others are the errors of the key functions of \<open>client-go/tools/cache\<close>.
\<close>

datatype api_error_kind = AlreadyExists | NotFound | Transient | Other

datatype error = ObjectHasNoMeta | UnexpectedKeyFormat string | ApiError api_error_kind

text \<open>
  A Go call returns, panics (here: a nil pointer dereference), or blocks (a \<open>Get\<close> on an
  empty queue that is not shutting down waits for another goroutine).
\<close>

datatype 'a outcome = Returns 'a | Panics | Blocks

text \<open>
  A work item is an \<open>interface{}\<close>: the handlers enqueue the raw object of the
  notification. That is a deployment, or, for a delete that the watch missed, a
  \<open>DeletedFinalStateUnknown\<close> tombstone, which carries no object metadata.
\<close>

datatype item = NilItem | Object deployment | ExplicitKey string | Tombstone string

text \<open>What the code does to the outside world, in the order it does it.\<close>

datatype queue_call =
  QAdd item | QGet | QDone item | QForget item | QAddRateLimited item | QAddAfter item | QShutDown

datatype api_call = ServicesCreate string service | IngressesCreate string ingress

datatype event = Queue queue_call | Api api_call | Print string "error option" | WorkerStart

text \<open>
  \<open>kubernetes.Interface\<close> is an interface: the two calls the controller makes are
  functions on a cluster state of any type, each returning Go's pair of a pointer and an
  error.
\<close>

record 'c clientset =
  servicesCreate :: "string \<Rightarrow> service \<Rightarrow> 'c \<Rightarrow> (service option \<times> error option) \<times> 'c"
  ingressesCreate :: "string \<Rightarrow> ingress \<Rightarrow> 'c \<Rightarrow> (ingress option \<times> error option) \<times> 'c"

text \<open>
  The state the controller runs in: the work queue (its pending items and its shutdown
  flag), the informer's local cache behind \<open>depLister\<close>, the cluster behind the clientset,
  and the trace of events so far.
\<close>

record 'c world =
  queue :: "item list"
  shuttingDown :: bool
  depCache :: "deployment list"
  cluster :: 'c
  trace :: "event list"

definition emit :: "event \<Rightarrow> 'c world \<Rightarrow> 'c world" where
  "emit e w = w\<lparr>trace := trace w @ [e]\<rparr>"

section \<open>The library calls the controller makes\<close>

text \<open>
  \<open>cache.MetaNamespaceKeyFunc\<close>: an explicit key is returned as it is; an object with
  metadata gives \<open>namespace/name\<close>, or \<open>name\<close> when the namespace is empty; anything else
  gives the empty key and an error.
\<close>

fun MetaNamespaceKeyFunc :: "item \<Rightarrow> string \<times> error option" where
  "MetaNamespaceKeyFunc (ExplicitKey k) = (k, None)"
| "MetaNamespaceKeyFunc (Object d) =
     (if depNamespace d \<noteq> [] then (depNamespace d @ ''/'' @ depName d, None)
      else (depName d, None))"
| "MetaNamespaceKeyFunc NilItem = ([], Some ObjectHasNoMeta)"
| "MetaNamespaceKeyFunc (Tombstone k) = ([], Some ObjectHasNoMeta)"

text \<open>\<open>strings.Split(s, sep)\<close> for a separator of one character.\<close>

fun strings_Split :: "string \<Rightarrow> char \<Rightarrow> string list" where
  "strings_Split [] sep = [[]]"
| "strings_Split (x # xs) sep =
     (if x = sep then [] # strings_Split xs sep
      else (case strings_Split xs sep of
              [] \<Rightarrow> [[x]]
            | p # ps \<Rightarrow> (x # p) # ps))"

text \<open>
  \<open>cache.SplitMetaNamespaceKey\<close>: one part is a name without namespace, two parts are
  namespace and name, anything else is an error.
\<close>

definition SplitMetaNamespaceKey :: "string \<Rightarrow> string \<times> string \<times> error option" where
  "SplitMetaNamespaceKey key =
     (case strings_Split key CHR ''/'' of
        [name] \<Rightarrow> ([], name, None)
      | [ns, name] \<Rightarrow> (ns, name, None)
      | _ \<Rightarrow> ([], [], Some (UnexpectedKeyFormat key)))"

text \<open>
  \<open>depLister.Deployments(ns).Get(name)\<close>: the cached deployment of that namespace and
  name, or a nil pointer and a not-found error.
\<close>

definition lister_Get :: "deployment list \<Rightarrow> string \<Rightarrow> string \<Rightarrow> deployment option \<times> error option" where
  "lister_Get store ns name =
     (case find (\<lambda>d. depNamespace d = ns \<and> depName d = name) store of
        Some d \<Rightarrow> (Some d, None)
      | None \<Rightarrow> (None, Some (ApiError NotFound)))"

text \<open>
  \<open>queue.Get()\<close>: the head of the pending items; once the queue is drained, the shutdown
  signal if the queue is shutting down, and otherwise the call blocks.
\<close>

definition queue_Get :: "'c world \<Rightarrow> (item \<times> bool) outcome \<times> 'c world" where
  "queue_Get w =
     (case queue w of
        it # rest \<Rightarrow> (Returns (it, False), emit (Queue QGet) (w\<lparr>queue := rest\<rparr>))
      | [] \<Rightarrow> (if shuttingDown w then (Returns (NilItem, True), emit (Queue QGet) w)
               else (Blocks, emit (Queue QGet) w)))"

text \<open>\<open>queue.Forget(item)\<close> clears the rate limiter's history of the item; the queue's
  contents stay as they are.\<close>

definition queue_Forget :: "item \<Rightarrow> 'c world \<Rightarrow> 'c world" where
  "queue_Forget it w = emit (Queue (QForget it)) w"

definition Printf :: "string \<Rightarrow> error \<Rightarrow> 'c world \<Rightarrow> 'c world" where
  "Printf msg e w = emit (Print msg (Some e)) w"

definition Println :: "string \<Rightarrow> 'c world \<Rightarrow> 'c world" where
  "Println msg w = emit (Print msg None) w"

definition Services_Create ::
  "'c clientset \<Rightarrow> string \<Rightarrow> service \<Rightarrow> 'c world \<Rightarrow> (service option \<times> error option) \<times> 'c world" where
  "Services_Create c ns svc w =
     (case servicesCreate c ns svc (cluster w) of
        (r, cl) \<Rightarrow> (r, emit (Api (ServicesCreate ns svc)) (w\<lparr>cluster := cl\<rparr>)))"

definition Ingresses_Create ::
  "'c clientset \<Rightarrow> string \<Rightarrow> ingress \<Rightarrow> 'c world \<Rightarrow> (ingress option \<times> error option) \<times> 'c world" where
  "Ingresses_Create c ns ing w =
     (case ingressesCreate c ns ing (cluster w) of
        (r, cl) \<Rightarrow> (r, emit (Api (IngressesCreate ns ing)) (w\<lparr>cluster := cl\<rparr>)))"

section \<open>The controller\<close>

text \<open>\<open>depLabels\<close>: the labels of the pod template.\<close>

definition depLabels :: "deployment \<Rightarrow> labels" where
  "depLabels dep = depTemplateLabels dep"

text \<open>
  \<open>createIngress\<close>: \<open>svc\<close> is a pointer, and the first thing the function does is read
  \<open>svc.Name\<close>; on a nil pointer that panics. The result is the error of the create call.
\<close>

definition createIngress ::
  "'c clientset \<Rightarrow> service option \<Rightarrow> 'c world \<Rightarrow> error option outcome \<times> 'c world" where
  "createIngress client svc w =
     (case svc of
        None \<Rightarrow> (Panics, w)
      | Some s \<Rightarrow>
          (let pathType = ''Prefix'';
               ingress = \<lparr>ingName = svcName s,
                          ingNamespace = svcNamespace s,
                          ingAnnotations = [(''nginx.ingress.kubernetes.io/rewrite-target'', ''/'')],
                          ingRules = [\<lparr>irHTTP = Some [\<lparr>hipPath = ''/'' @ svcName s,
                                                         hipPathType = Some pathType,
                                                         hipBackendService =
                                                           Some \<lparr>isbName = svcName s,
                                                                 isbPortNumber = 80\<rparr>\<rparr>]\<rparr>]\<rparr>
           in case Ingresses_Create client (svcNamespace s) ingress w of
                ((_, err), w') \<Rightarrow> (Returns err, w')))"

text \<open>
  \<open>syncDeployment\<close>, as in the file with \<open>createIngress\<close>. A lister error is printed and
  the function goes on; building the Service reads \<open>dep.Name\<close>, which panics when \<open>dep\<close>
  is nil. An error of the Service create is printed and the function goes on to
  \<open>createIngress\<close> with the pointer the create returned.
\<close>

definition syncDeployment ::
  "'c clientset \<Rightarrow> string \<Rightarrow> string \<Rightarrow> 'c world \<Rightarrow> error option outcome \<times> 'c world" where
  "syncDeployment client ns name w =
     (case lister_Get (depCache w) ns name of
        (dep, err) \<Rightarrow>
          (let w1 = (case err of
                       Some e \<Rightarrow> Printf ''getting deployment from lister %s'' e w
                     | None \<Rightarrow> w)
           in case dep of
                None \<Rightarrow> (Panics, w1)
              | Some d \<Rightarrow>
                  (let svc = \<lparr>svcName = depName d,
                              svcNamespace = ns,
                              svcSelector = depLabels d,
                              svcPorts = [\<lparr>spName = ''http'', spPort = 80\<rparr>]\<rparr>
                   in case Services_Create client ns svc w1 of
                        ((s, err2), w2) \<Rightarrow>
                          (let w3 = (case err2 of
                                       Some e \<Rightarrow> Printf ''creating service %s'' e w2
                                     | None \<Rightarrow> w2)
                           in createIngress client s w3))))"

text \<open>
  \<open>syncDeployment\<close>, as in \<open>controller.go\<close>: the same up to the Service create, whose
  pointer is dropped; the function then returns nil.
\<close>

definition syncDeployment_svc ::
  "'c clientset \<Rightarrow> string \<Rightarrow> string \<Rightarrow> 'c world \<Rightarrow> error option outcome \<times> 'c world" where
  "syncDeployment_svc client ns name w =
     (case lister_Get (depCache w) ns name of
        (dep, err) \<Rightarrow>
          (let w1 = (case err of
                       Some e \<Rightarrow> Printf ''getting deployment from lister %s'' e w
                     | None \<Rightarrow> w)
           in case dep of
                None \<Rightarrow> (Panics, w1)
              | Some d \<Rightarrow>
                  (let svc = \<lparr>svcName = depName d,
                              svcNamespace = ns,
                              svcSelector = depLabels d,
                              svcPorts = [\<lparr>spName = ''http'', spPort = 80\<rparr>]\<rparr>
                   in case Services_Create client ns svc w1 of
                        ((_, err2), w2) \<Rightarrow>
                          (let w3 = (case err2 of
                                       Some e \<Rightarrow> Printf ''creating service %s'' e w2
                                     | None \<Rightarrow> w2)
                           in (Returns None, w3)))))"

text \<open>
  The part of \<open>processItem\<close> after \<open>defer c.queue.Forget(item)\<close>, for either
  \<open>syncDeployment\<close>. A key error is printed and the function goes on with the key it got.
\<close>

definition processItem_deferred ::
  "(string \<Rightarrow> string \<Rightarrow> 'c world \<Rightarrow> error option outcome \<times> 'c world) \<Rightarrow> item \<Rightarrow> 'c world
     \<Rightarrow> bool outcome \<times> 'c world" where
  "processItem_deferred sync it w =
     (case MetaNamespaceKeyFunc it of
        (key, error) \<Rightarrow>
          (let w1 = (case error of
                       Some e \<Rightarrow> Printf ''getting key from cache %s'' e w
                     | None \<Rightarrow> w)
           in case SplitMetaNamespaceKey key of
                (ns, name, Some e) \<Rightarrow> (Returns False, Printf ''spliting key into ns and name %s'' e w1)
              | (ns, name, None) \<Rightarrow>
                  (case sync ns name w1 of
                     (Returns (Some e), w2) \<Rightarrow> (Returns False, Printf ''syncing deployment %s'' e w2)
                   | (Returns None, w2) \<Rightarrow> (Returns True, w2)
                   | (Panics, w2) \<Rightarrow> (Panics, w2)
                   | (Blocks, w2) \<Rightarrow> (Blocks, w2))))"

text \<open>
  \<open>processItem\<close>: on the shutdown signal it returns false before the \<open>defer\<close>; otherwise
  the deferred \<open>Forget\<close> runs when the rest of the function returns or panics.
\<close>

definition processItem_with ::
  "(string \<Rightarrow> string \<Rightarrow> 'c world \<Rightarrow> error option outcome \<times> 'c world) \<Rightarrow> 'c world
     \<Rightarrow> bool outcome \<times> 'c world" where
  "processItem_with sync w =
     (case queue_Get w of
        (Returns (it, shutdown), w1) \<Rightarrow>
          (if shutdown then (Returns False, w1)
           else (case processItem_deferred sync it w1 of
                   (r, w2) \<Rightarrow> (r, queue_Forget it w2)))
      | (Panics, w1) \<Rightarrow> (Panics, w1)
      | (Blocks, w1) \<Rightarrow> (Blocks, w1))"

definition processItem :: "'c clientset \<Rightarrow> 'c world \<Rightarrow> bool outcome \<times> 'c world" where
  "processItem client w = processItem_with (syncDeployment client) w"

definition processItem_svc :: "'c clientset \<Rightarrow> 'c world \<Rightarrow> bool outcome \<times> 'c world" where
  "processItem_svc client w = processItem_with (syncDeployment_svc client) w"

subsection \<open>The worker loop\<close>

text \<open>
  No call of the controller changes the pending items except \<open>Get\<close>, which removes the
  head; so every turn of the worker's loop that goes on has shortened the queue.
\<close>

lemma queue_emit [simp]: "queue (emit e w) = queue w"
  by (simp add: emit_def)

lemma queue_Printf [simp]: "queue (Printf m e w) = queue w"
  by (simp add: Printf_def)

lemma queue_Println [simp]: "queue (Println m w) = queue w"
  by (simp add: Println_def)

lemma queue_Services_Create: "Services_Create c ns svc w = (r, w') \<Longrightarrow> queue w' = queue w"
  by (auto simp: Services_Create_def split: prod.splits)

lemma queue_Ingresses_Create: "Ingresses_Create c ns ing w = (r, w') \<Longrightarrow> queue w' = queue w"
  by (auto simp: Ingresses_Create_def split: prod.splits)

lemma queue_createIngress: "createIngress c s w = (r, w') \<Longrightarrow> queue w' = queue w"
  by (auto simp: createIngress_def Let_def split: option.splits prod.splits
      dest: queue_Ingresses_Create)

lemma queue_syncDeployment: "syncDeployment c ns name w = (r, w') \<Longrightarrow> queue w' = queue w"
  by (auto simp: syncDeployment_def Let_def split: option.splits prod.splits
      dest!: queue_Services_Create queue_createIngress)

lemma queue_syncDeployment_svc: "syncDeployment_svc c ns name w = (r, w') \<Longrightarrow> queue w' = queue w"
  by (auto simp: syncDeployment_svc_def Let_def split: option.splits prod.splits
      dest!: queue_Services_Create)

lemma queue_processItem_deferred:
  assumes "\<And>ns name w r w'. sync ns name w = (r, w') \<Longrightarrow> queue w' = queue w"
      and "processItem_deferred sync it w = (r, w')"
  shows "queue w' = queue w"
  using assms(2)
  by (auto simp: processItem_deferred_def Let_def
      split: option.splits prod.splits outcome.splits dest!: assms(1))

lemma processItem_True_shrinks:
  "processItem c w = (Returns True, w') \<Longrightarrow> length (queue w') < length (queue w)"
  apply (auto simp: processItem_def processItem_with_def queue_Get_def queue_Forget_def
      split: list.splits if_splits prod.splits)
  apply (drule queue_processItem_deferred [rotated])
   apply (erule queue_syncDeployment)
  apply simp
  done

text \<open>\<open>worker\<close>: \<open>for c.processItem() { }\<close>, the loop goes on while \<open>processItem\<close> returns
  true.\<close>

function worker :: "'c clientset \<Rightarrow> 'c world \<Rightarrow> unit outcome \<times> 'c world" where
  "worker client w =
     (case processItem client w of
        (Returns True, w') \<Rightarrow> worker client w'
      | (Returns False, w') \<Rightarrow> (Returns (), w')
      | (Panics, w') \<Rightarrow> (Panics, w')
      | (Blocks, w') \<Rightarrow> (Blocks, w'))"
  by pat_completeness auto
termination
  apply (relation "measure (\<lambda>(c, w). length (queue w))")
   apply simp
  apply (auto dest: processItem_True_shrinks [OF sym])
  done

declare worker.simps [simp del]

subsection \<open>Starting the controller\<close>

text \<open>
  \<open>run\<close> depends on two things outside the controller: when the stop channel \<open>ch\<close> is
  closed and when the informer's \<open>HasSynced\<close> starts to answer true. Time is counted in
  ticks; a closed channel stays closed and a synced cache stays synced.
\<close>

record environment =
  closedAt :: "nat option"
  syncedAt :: "nat option"

definition chClosed :: "environment \<Rightarrow> nat \<Rightarrow> bool" where
  "chClosed env t = (case closedAt env of None \<Rightarrow> False | Some c \<Rightarrow> c \<le> t)"

definition HasSynced :: "environment \<Rightarrow> nat \<Rightarrow> bool" where
  "HasSynced env t = (case syncedAt env of None \<Rightarrow> False | Some s \<Rightarrow> s \<le> t)"

text \<open>
  \<open>cache.WaitForCacheSync(ch, synced)\<close>, called at tick \<open>t\<close>: it polls \<open>synced\<close>, at once
  and then once a tick, and returns true at the first poll that answers true; it returns
  false when \<open>ch\<close> is closed before that; it blocks while neither happens. The result comes
  with the tick of the return.
\<close>

definition WaitForCacheSync :: "environment \<Rightarrow> nat \<Rightarrow> (bool \<times> nat) outcome" where
  "WaitForCacheSync env t =
     (if HasSynced env t then Returns (True, t)
      else if chClosed env t then Returns (False, t)
      else (case (syncedAt env, closedAt env) of
              (None, None) \<Rightarrow> Blocks
            | (Some s, None) \<Rightarrow> Returns (True, s)
            | (None, Some c) \<Rightarrow> Returns (False, c)
            | (Some s, Some c) \<Rightarrow> (if s \<le> c then Returns (True, s) else Returns (False, c))))"

text \<open>
  \<open>wait.Until(c.worker, 1*time.Second, ch)\<close>, called at tick \<open>t\<close>: each turn first looks
  at \<open>ch\<close> and returns if it is closed; otherwise it calls the worker, and when the worker
  returns it waits for the period and takes the next turn. A panic of the worker is
  passed on. The first argument bounds the number of turns; \<open>None\<close> is the bound reached.
\<close>

fun wait_Until ::
  "nat \<Rightarrow> 'c clientset \<Rightarrow> environment \<Rightarrow> nat \<Rightarrow> 'c world \<Rightarrow> unit outcome option \<times> 'c world" where
  "wait_Until 0 client env t w = (None, w)"
| "wait_Until (Suc n) client env t w =
     (if chClosed env t then (Some (Returns ()), w)
      else (case worker client (emit WorkerStart w) of
              (Returns u, w') \<Rightarrow> wait_Until n client env (Suc t) w'
            | (Panics, w') \<Rightarrow> (Some Panics, w')
            | (Blocks, w') \<Rightarrow> (Some Blocks, w')))"

text \<open>
  \<open>run\<close>: the result of \<open>WaitForCacheSync\<close> decides only whether a line is printed; the
  worker goroutine is launched either way, and \<open>run\<close> then waits for \<open>ch\<close>.
\<close>

definition run ::
  "nat \<Rightarrow> 'c clientset \<Rightarrow> environment \<Rightarrow> 'c world \<Rightarrow> unit outcome option \<times> 'c world" where
  "run turns client env w =
     (let w1 = Println ''starting controller'' w
      in case WaitForCacheSync env 0 of
           Returns (ok, t) \<Rightarrow>
             (let w2 = (if \<not> ok then Println ''waiting for cache to be synced'' w1 else w1)
              in wait_Until turns client env t w2)
         | Panics \<Rightarrow> (Some Panics, w1)
         | Blocks \<Rightarrow> (Some Blocks, w1))"

section \<open>A cluster to run the controller against\<close>

text \<open>
  An in-memory cluster behind the clientset, after client-go's object tracker: it keeps
  the Services and Ingresses created so far, answers a create of an existing namespace
  and name with an already-exists error, and can be told to fail every create of a kind
  with a given error. A failed create returns, with the error, a nil pointer (as
  client-go's fake clientset does) or a pointer to an empty object (as its REST client
  does), as the flag says.
\<close>

record tracker =
  services :: "service list"
  ingresses :: "ingress list"
  serviceFault :: "error option"
  ingressFault :: "error option"

definition emptyService :: service where
  "emptyService = \<lparr>svcName = [], svcNamespace = [], svcSelector = [], svcPorts = []\<rparr>"

definition emptyIngress :: ingress where
  "emptyIngress = \<lparr>ingName = [], ingNamespace = [], ingAnnotations = [], ingRules = []\<rparr>"

definition tracker_servicesCreate ::
  "bool \<Rightarrow> string \<Rightarrow> service \<Rightarrow> tracker \<Rightarrow> (service option \<times> error option) \<times> tracker" where
  "tracker_servicesCreate nilOnError ns svc cl =
     (let failed = (if nilOnError then None else Some emptyService)
      in case serviceFault cl of
           Some e \<Rightarrow> ((failed, Some e), cl)
         | None \<Rightarrow>
             (case find (\<lambda>s. svcNamespace s = ns \<and> svcName s = svcName svc) (services cl) of
                Some s \<Rightarrow> ((failed, Some (ApiError AlreadyExists)), cl)
              | None \<Rightarrow>
                  (let created = svc\<lparr>svcNamespace := ns\<rparr>
                   in ((Some created, None), cl\<lparr>services := services cl @ [created]\<rparr>))))"

definition tracker_ingressesCreate ::
  "bool \<Rightarrow> string \<Rightarrow> ingress \<Rightarrow> tracker \<Rightarrow> (ingress option \<times> error option) \<times> tracker" where
  "tracker_ingressesCreate nilOnError ns ing cl =
     (let failed = (if nilOnError then None else Some emptyIngress)
      in case ingressFault cl of
           Some e \<Rightarrow> ((failed, Some e), cl)
         | None \<Rightarrow>
             (case find (\<lambda>i. ingNamespace i = ns \<and> ingName i = ingName ing) (ingresses cl) of
                Some i \<Rightarrow> ((failed, Some (ApiError AlreadyExists)), cl)
              | None \<Rightarrow>
                  (let created = ing\<lparr>ingNamespace := ns\<rparr>
                   in ((Some created, None), cl\<lparr>ingresses := ingresses cl @ [created]\<rparr>))))"

definition trackerClient :: "bool \<Rightarrow> tracker clientset" where
  "trackerClient nilOnError =
     \<lparr>servicesCreate = tracker_servicesCreate nilOnError,
      ingressesCreate = tracker_ingressesCreate nilOnError\<rparr>"

text \<open>The deployment \<open>default/web\<close> with the pod-template labels \<open>app: web\<close>, and worlds
  around it.\<close>

definition web :: deployment where
  "web = \<lparr>depName = ''web'', depNamespace = ''default'', depTemplateLabels = [(''app'', ''web'')]\<rparr>"

definition emptyTracker :: tracker where
  "emptyTracker = \<lparr>services = [], ingresses = [], serviceFault = None, ingressFault = None\<rparr>"

definition world0 :: "item list \<Rightarrow> deployment list \<Rightarrow> tracker \<Rightarrow> tracker world" where
  "world0 items store cl =
     \<lparr>queue = items, shuttingDown = False, depCache = store, cluster = cl, trace = []\<rparr>"




section \<open>What the controller adds to the trace\<close>

text \<open>A stretch of events that holds no call of the work queue.\<close>

definition quiet :: "'c world \<Rightarrow> 'c world \<Rightarrow> event list \<Rightarrow> bool" where
  "quiet w w' es \<longleftrightarrow> trace w' = trace w @ es \<and> (\<forall>q. Queue q \<notin> set es)"

lemma trace_emit [simp]: "trace (emit e w) = trace w @ [e]"
  by (simp add: emit_def)

lemma trace_Printf [simp]: "trace (Printf m e w) = trace w @ [Print m (Some e)]"
  by (simp add: Printf_def)

lemma trace_Println [simp]: "trace (Println m w) = trace w @ [Print m None]"
  by (simp add: Println_def)

lemma trace_Services_Create:
  "Services_Create c ns svc w = (r, w') \<Longrightarrow> trace w' = trace w @ [Api (ServicesCreate ns svc)]"
  by (auto simp: Services_Create_def split: prod.splits)

lemma trace_Ingresses_Create:
  "Ingresses_Create c ns ing w = (r, w') \<Longrightarrow> trace w' = trace w @ [Api (IngressesCreate ns ing)]"
  by (auto simp: Ingresses_Create_def split: prod.splits)

lemma quiet_createIngress: "createIngress c s w = (r, w') \<Longrightarrow> \<exists>es. quiet w w' es"
  by (auto simp: createIngress_def quiet_def Let_def split: option.splits prod.splits
      dest!: trace_Ingresses_Create)

lemma quiet_syncDeployment: "syncDeployment c ns name w = (r, w') \<Longrightarrow> \<exists>es. quiet w w' es"
  by (auto simp: syncDeployment_def quiet_def Let_def split: option.splits prod.splits
      dest!: trace_Services_Create quiet_createIngress)

lemma quiet_syncDeployment_svc:
  "syncDeployment_svc c ns name w = (r, w') \<Longrightarrow> \<exists>es. quiet w w' es"
  by (auto simp: syncDeployment_svc_def quiet_def Let_def split: option.splits prod.splits
      dest!: trace_Services_Create)

lemma quiet_processItem_deferred:
  assumes "\<And>ns name w r w'. sync ns name w = (r, w') \<Longrightarrow> \<exists>es. quiet w w' es"
      and "processItem_deferred sync it w = (r, w')"
  shows "\<exists>es. quiet w w' es"
  using assms(2)
  by (auto simp: processItem_deferred_def Let_def quiet_def
      split: option.splits prod.splits outcome.splits dest!: assms(1))

lemma processItem_with_trace:
  assumes q: "\<And>ns name w r w'. sync ns name w = (r, w') \<Longrightarrow> queue w' = queue w"
      and t: "\<And>ns name w r w'. sync ns name w = (r, w') \<Longrightarrow> \<exists>es. quiet w w' es"
      and w: "queue w = it # rest"
  shows "\<exists>es. trace (snd (processItem_with sync w))
              = trace w @ [Queue QGet] @ es @ [Queue (QForget it)]
            \<and> (\<forall>q. Queue q \<notin> set es) \<and> queue (snd (processItem_with sync w)) = rest"
proof -
  let ?w1 = "emit (Queue QGet) (w\<lparr>queue := rest\<rparr>)"
  obtain r w2 where d: "processItem_deferred sync it ?w1 = (r, w2)"
    by (cases "processItem_deferred sync it ?w1")
  have "\<exists>es. quiet ?w1 w2 es"
    by (rule quiet_processItem_deferred [OF _ d]) (rule t)
  then obtain es where es: "quiet ?w1 w2 es"
    by blast
  have "queue w2 = queue ?w1"
    by (rule queue_processItem_deferred [OF _ d]) (rule q)
  then have qq: "queue w2 = rest"
    by simp
  have "processItem_with sync w = (r, queue_Forget it w2)"
    using w d by (simp add: processItem_with_def queue_Get_def)
  with es qq show ?thesis
    by (auto simp: quiet_def queue_Forget_def)
qed

section \<open>The worker and the queue\<close>

text \<open>
  C1. For every item that \<open>processItem\<close> dequeues, in either file: whatever the outcome of
  the reconciliation (success, a returned error, a panic), the calls made on the work
  queue are the \<open>Get\<close>, and then, as the last event, one \<open>Forget\<close> of that item; no other
  queue call (no add, no rate-limited requeue) happens in between, and the pending items
  afterwards are the ones that were behind the item: it is not enqueued again.
\<close>

theorem processItem_forgets_once_no_requeue:
  assumes "queue w = it # rest"
  shows "(\<exists>es. trace (snd (processItem client w))
               = trace w @ [Queue QGet] @ es @ [Queue (QForget it)]
             \<and> (\<forall>q. Queue q \<notin> set es) \<and> queue (snd (processItem client w)) = rest)
       \<and> (\<exists>es. trace (snd (processItem_svc client w))
               = trace w @ [Queue QGet] @ es @ [Queue (QForget it)]
             \<and> (\<forall>q. Queue q \<notin> set es) \<and> queue (snd (processItem_svc client w)) = rest)"
proof -
  have a: "\<exists>es. trace (snd (processItem_with (syncDeployment client) w))
                = trace w @ [Queue QGet] @ es @ [Queue (QForget it)]
            \<and> (\<forall>q. Queue q \<notin> set es)
            \<and> queue (snd (processItem_with (syncDeployment client) w)) = rest"
    by (rule processItem_with_trace [OF _ _ assms])
       (erule queue_syncDeployment, erule quiet_syncDeployment)
  have b: "\<exists>es. trace (snd (processItem_with (syncDeployment_svc client) w))
                = trace w @ [Queue QGet] @ es @ [Queue (QForget it)]
            \<and> (\<forall>q. Queue q \<notin> set es)
            \<and> queue (snd (processItem_with (syncDeployment_svc client) w)) = rest"
    by (rule processItem_with_trace [OF _ _ assms])
       (erule queue_syncDeployment_svc, erule quiet_syncDeployment_svc)
  from a b show ?thesis
    by (simp only: processItem_def processItem_svc_def)
qed

theorem processItem_forgets_once_no_requeue_witness:
  "queue (world0 [Object web, ExplicitKey ''default/api''] [] emptyTracker)
     = Object web # [ExplicitKey ''default/api'']
   \<and> queue (snd (processItem (trackerClient True)
         (world0 [Object web, ExplicitKey ''default/api''] [] emptyTracker)))
     = [ExplicitKey ''default/api'']
   \<and> queue (snd (processItem_svc (trackerClient True)
         (world0 [Object web, ExplicitKey ''default/api''] [] emptyTracker)))
     = [ExplicitKey ''default/api'']"
proof -
  have h: "queue (world0 [Object web, ExplicitKey ''default/api''] [] emptyTracker)
             = Object web # [ExplicitKey ''default/api'']"
    by (simp add: world0_def)
  from processItem_forgets_once_no_requeue [OF h, of "trackerClient True"] h
  show ?thesis by blast
qed

text \<open>The definitions to unfold when the controller is run on a concrete world.\<close>

lemmas model_defs =
  syncDeployment_def syncDeployment_svc_def createIngress_def lister_Get_def
  Services_Create_def Ingresses_Create_def trackerClient_def tracker_servicesCreate_def
  tracker_ingressesCreate_def world0_def emptyTracker_def web_def depLabels_def
  emptyService_def emptyIngress_def Let_def processItem_def processItem_svc_def
  processItem_with_def processItem_deferred_def queue_Get_def queue_Forget_def
  SplitMetaNamespaceKey_def Printf_def Println_def emit_def

section \<open>Reconciliation\<close>

lemma lister_Get_Some:
  "lister_Get store ns name = (Some d, err)
     \<Longrightarrow> depNamespace d = ns \<and> depName d = name \<and> err = None"
  by (auto simp: lister_Get_def find_Some_iff split: option.splits)

lemma syncDeployment_miss_panics:
  "lister_Get (depCache w) ns name = (None, err)
     \<Longrightarrow> fst (syncDeployment client ns name w) = Panics"
  by (simp add: syncDeployment_def Let_def)

text \<open>
  C2. The claim is that a reconciliation whose workload is absent from the cache ends as
  a success that does nothing. The code prints the lister's error and then reads
  \<open>dep.Name\<close> through the nil pointer: reconciling \<open>default/web\<close> against an empty cache
  panics, and so does \<open>processItem\<close> on the delete notification of \<open>default/web\<close>.
\<close>

theorem cache_miss_panics:
  "fst (syncDeployment (trackerClient True) ''default'' ''web'' (world0 [] [] emptyTracker))
     = Panics
   \<and> fst (processItem (trackerClient True) (world0 [Object web] [] emptyTracker)) = Panics"
  by (simp add: model_defs)

text \<open>
  C3. The claim is that a second reconciliation of the same workload is a successful
  no-op. On the second call the Service create is answered already-exists, which is
  only printed, and \<open>createIngress\<close> is given the pointer that came with the error. With
  a nil pointer the second call panics. With a pointer to an empty object the second
  call asks for an Ingress of the empty name in the empty namespace, and where the
  cluster accepts it there are two Ingresses afterwards.
\<close>

theorem second_reconcile_not_noop:
  "fst (syncDeployment (trackerClient True) ''default'' ''web''
         (snd (syncDeployment (trackerClient True) ''default'' ''web''
                (world0 [] [web] emptyTracker)))) = Panics
   \<and> fst (syncDeployment (trackerClient False) ''default'' ''web''
         (snd (syncDeployment (trackerClient False) ''default'' ''web''
                (world0 [] [web] emptyTracker)))) = Returns None
   \<and> map ingName (ingresses (cluster (snd (syncDeployment (trackerClient False)
         ''default'' ''web''
         (snd (syncDeployment (trackerClient False) ''default'' ''web''
                (world0 [] [web] emptyTracker)))))))
      = [''web'', []]"
  by (simp add: model_defs)

text \<open>
  C4. The claim is that a failed Service create makes the reconciliation return a
  failure. With a cluster whose Service creates fail with a transient error:
  \<open>syncDeployment\<close> returns nil when the create returns a pointer to an empty object and
  the Ingress create goes through; it panics when the create returns a nil pointer; and
  the \<open>syncDeployment\<close> of \<open>controller.go\<close> returns nil.
\<close>

theorem failed_service_create_not_reported:
  "fst (syncDeployment (trackerClient False) ''default'' ''web''
         (world0 [] [web] (emptyTracker\<lparr>serviceFault := Some (ApiError Transient)\<rparr>)))
     = Returns None
   \<and> fst (syncDeployment (trackerClient True) ''default'' ''web''
         (world0 [] [web] (emptyTracker\<lparr>serviceFault := Some (ApiError Transient)\<rparr>)))
     = Panics
   \<and> fst (syncDeployment_svc (trackerClient True) ''default'' ''web''
         (world0 [] [web] (emptyTracker\<lparr>serviceFault := Some (ApiError Transient)\<rparr>)))
     = Returns None"
  by (simp add: model_defs)

text \<open>
  C5. The claim is that the Route step is not entered when the Service create fails and
  yields no Service. With a cluster whose Service creates fail: \<open>syncDeployment\<close> is
  \<open>createIngress\<close> on the nil pointer, which panics; and when the failed create returns a
  pointer to an empty object, the last call of the reconciliation is the create of an
  Ingress of the empty name.
\<close>

theorem route_step_entered_after_failed_service_create:
  "syncDeployment (trackerClient True) ''default'' ''web''
         (world0 [] [web] (emptyTracker\<lparr>serviceFault := Some (ApiError Other)\<rparr>))
     = createIngress (trackerClient True) None
         (Printf ''creating service %s'' (ApiError Other)
            (emit (Api (ServicesCreate ''default''
                     \<lparr>svcName = ''web'', svcNamespace = ''default'',
                        svcSelector = [(''app'', ''web'')],
                        svcPorts = [\<lparr>spName = ''http'', spPort = 80\<rparr>]\<rparr>))
               (world0 [] [web] (emptyTracker\<lparr>serviceFault := Some (ApiError Other)\<rparr>))))
   \<and> fst (syncDeployment (trackerClient True) ''default'' ''web''
         (world0 [] [web] (emptyTracker\<lparr>serviceFault := Some (ApiError Other)\<rparr>))) = Panics
   \<and> last (trace (snd (syncDeployment (trackerClient False) ''default'' ''web''
         (world0 [] [web] (emptyTracker\<lparr>serviceFault := Some (ApiError Other)\<rparr>)))))
     = Api (IngressesCreate []
             \<lparr>ingName = [], ingNamespace = [],
                ingAnnotations = [(''nginx.ingress.kubernetes.io/rewrite-target'', ''/'')],
                ingRules = [\<lparr>irHTTP = Some [\<lparr>hipPath = ''/'', hipPathType = Some ''Prefix'',
                    hipBackendService = Some \<lparr>isbName = [], isbPortNumber = 80\<rparr>\<rparr>]\<rparr>]\<rparr>)"
  by (simp add: model_defs)

text \<open>
  C6. For every workload that the lister finds in the cache, the first event of the
  reconciliation is the create of a Service whose name and namespace are the
  workload's, whose selector is the workload's pod-template labels, and whose ports are
  the one port named \<open>http\<close> with number 80.
\<close>

theorem syncDeployment_service_record:
  assumes "lister_Get (depCache w) ns name = (Some d, err)"
  shows "\<exists>svc es. trace (snd (syncDeployment client ns name w))
                    = trace w @ Api (ServicesCreate ns svc) # es
           \<and> ns = depNamespace d \<and> name = depName d
           \<and> svcName svc = depName d \<and> svcNamespace svc = depNamespace d
           \<and> svcSelector svc = depTemplateLabels d
           \<and> svcPorts svc = [\<lparr>spName = ''http'', spPort = 80\<rparr>]"
proof -
  let ?svc = "\<lparr>svcName = depName d, svcNamespace = ns, svcSelector = depLabels d,
               svcPorts = [\<lparr>spName = ''http'', spPort = 80\<rparr>]\<rparr>"
  from lister_Get_Some [OF assms] have k: "depNamespace d = ns" "depName d = name" "err = None"
    by simp_all
  obtain s err2 w2 where c: "Services_Create client ns ?svc w = ((s, err2), w2)"
    by (cases "Services_Create client ns ?svc w") auto
  let ?w3 = "case err2 of Some e \<Rightarrow> Printf ''creating service %s'' e w2 | None \<Rightarrow> w2"
  have t2: "trace w2 = trace w @ [Api (ServicesCreate ns ?svc)]"
    by (rule trace_Services_Create [OF c])
  have "\<exists>es. trace ?w3 = trace w2 @ es"
    by (cases err2) simp_all
  moreover obtain r w4 where i: "createIngress client s ?w3 = (r, w4)"
    by (cases "createIngress client s ?w3")
  moreover from quiet_createIngress [OF i] have "\<exists>es. trace w4 = trace ?w3 @ es"
    by (auto simp: quiet_def)
  moreover have "syncDeployment client ns name w = (r, w4)"
    using assms k c i by (simp add: syncDeployment_def Let_def)
  ultimately have "\<exists>es. trace (snd (syncDeployment client ns name w))
                     = trace w @ Api (ServicesCreate ns ?svc) # es"
    using t2 by auto
  with k show ?thesis
    by (auto simp: depLabels_def)
qed

theorem syncDeployment_service_record_witness:
  "lister_Get (depCache (world0 [] [web] emptyTracker)) ''default'' ''web'' = (Some web, None)
   \<and> hd (trace (snd (syncDeployment (trackerClient True) ''default'' ''web''
                      (world0 [] [web] emptyTracker))))
       = Api (ServicesCreate ''default''
               \<lparr>svcName = ''web'', svcNamespace = ''default'', svcSelector = [(''app'', ''web'')],
                  svcPorts = [\<lparr>spName = ''http'', spPort = 80\<rparr>]\<rparr>)"
proof -
  have h: "lister_Get (depCache (world0 [] [web] emptyTracker)) ''default'' ''web''
             = (Some web, None)"
    by (simp add: lister_Get_def world0_def web_def)
  from syncDeployment_service_record [OF h, of "trackerClient True"]
  obtain svc es where
    "trace (snd (syncDeployment (trackerClient True) ''default'' ''web''
                   (world0 [] [web] emptyTracker)))
       = trace (world0 [] [web] emptyTracker) @ Api (ServicesCreate ''default'' svc) # es"
    "svcName svc = depName web" "svcNamespace svc = depNamespace web"
    "svcSelector svc = depTemplateLabels web"
    "svcPorts svc = [\<lparr>spName = ''http'', spPort = 80\<rparr>]"
    by blast
  then show ?thesis using h
    by (simp add: world0_def web_def)
qed

lemma createIngress_record:
  "\<exists>ing. trace (snd (createIngress client (Some svc) w))
            = trace w @ [Api (IngressesCreate (svcNamespace svc) ing)]
       \<and> ingName ing = svcName svc \<and> ingNamespace ing = svcNamespace svc
       \<and> ingAnnotations ing = [(''nginx.ingress.kubernetes.io/rewrite-target'', ''/'')]
       \<and> ingRules ing =
           [\<lparr>irHTTP = Some [\<lparr>hipPath = ''/'' @ svcName svc,
                               hipPathType = Some ''Prefix'',
                               hipBackendService =
                                 Some \<lparr>isbName = svcName svc, isbPortNumber = 80\<rparr>\<rparr>]\<rparr>]"
  by (auto simp: createIngress_def Let_def split: prod.splits dest!: trace_Ingresses_Create)

text \<open>
  C7. When the workload is in the cache and the Service create returns a Service \<open>s\<close>, the
  last event of the reconciliation is the create, in the namespace of \<open>s\<close>, of an Ingress
  with the name and namespace of \<open>s\<close>, the one annotation
  \<open>nginx.ingress.kubernetes.io/rewrite-target: /\<close>, and one rule with the one path
  \<open>/name\<close> of type \<open>Prefix\<close> whose backend is the Service of that name on port 80.
\<close>

theorem syncDeployment_route_record:
  assumes "lister_Get (depCache w) ns name = (Some d, err)"
      and "fst (Services_Create client ns
                  \<lparr>svcName = depName d, svcNamespace = ns, svcSelector = depLabels d,
                     svcPorts = [\<lparr>spName = ''http'', spPort = 80\<rparr>]\<rparr> w) = (Some s, err2)"
  shows "\<exists>ing es. trace (snd (syncDeployment client ns name w))
                    = trace w @ es @ [Api (IngressesCreate (svcNamespace s) ing)]
       \<and> ingName ing = svcName s \<and> ingNamespace ing = svcNamespace s
       \<and> ingAnnotations ing = [(''nginx.ingress.kubernetes.io/rewrite-target'', ''/'')]
       \<and> ingRules ing =
           [\<lparr>irHTTP = Some [\<lparr>hipPath = ''/'' @ svcName s,
                               hipPathType = Some ''Prefix'',
                               hipBackendService =
                                 Some \<lparr>isbName = svcName s, isbPortNumber = 80\<rparr>\<rparr>]\<rparr>]"
proof -
  let ?svc = "\<lparr>svcName = depName d, svcNamespace = ns, svcSelector = depLabels d,
               svcPorts = [\<lparr>spName = ''http'', spPort = 80\<rparr>]\<rparr>"
  obtain w2 where c: "Services_Create client ns ?svc w = ((Some s, err2), w2)"
    using assms(2) by (cases "Services_Create client ns ?svc w") auto
  let ?w3 = "case err2 of Some e \<Rightarrow> Printf ''creating service %s'' e w2 | None \<Rightarrow> w2"
  have t2: "trace w2 = trace w @ [Api (ServicesCreate ns ?svc)]"
    by (rule trace_Services_Create [OF c])
  have t3: "\<exists>es. trace ?w3 = trace w @ es"
    using t2 by (cases err2) simp_all
  have "syncDeployment client ns name w = createIngress client (Some s) ?w3"
    using assms(1) c by (simp add: syncDeployment_def Let_def lister_Get_def split: option.splits)
  with createIngress_record [of client s ?w3] t3 show ?thesis
    by (metis append.assoc)
qed

theorem syncDeployment_route_record_witness:
  "lister_Get (depCache (world0 [] [web] emptyTracker)) ''default'' ''web'' = (Some web, None)
   \<and> last (trace (snd (syncDeployment (trackerClient True) ''default'' ''web''
                      (world0 [] [web] emptyTracker))))
       = Api (IngressesCreate ''default''
               \<lparr>ingName = ''web'', ingNamespace = ''default'',
                  ingAnnotations = [(''nginx.ingress.kubernetes.io/rewrite-target'', ''/'')],
                  ingRules = [\<lparr>irHTTP = Some [\<lparr>hipPath = ''/web'', hipPathType = Some ''Prefix'',
                      hipBackendService = Some \<lparr>isbName = ''web'', isbPortNumber = 80\<rparr>\<rparr>]\<rparr>]\<rparr>)"
proof -
  let ?s = "\<lparr>svcName = ''web'', svcNamespace = ''default'', svcSelector = [(''app'', ''web'')],
              svcPorts = [\<lparr>spName = ''http'', spPort = 80\<rparr>]\<rparr>"
  have h: "lister_Get (depCache (world0 [] [web] emptyTracker)) ''default'' ''web''
             = (Some web, None)"
    by (simp add: lister_Get_def world0_def web_def)
  have c: "fst (Services_Create (trackerClient True) ''default''
                  \<lparr>svcName = depName web, svcNamespace = ''default'', svcSelector = depLabels web,
                     svcPorts = [\<lparr>spName = ''http'', spPort = 80\<rparr>]\<rparr>
                  (world0 [] [web] emptyTracker)) = (Some ?s, None)"
    by (simp add: model_defs)
  from syncDeployment_route_record [OF h c]
  obtain ing es where
    "trace (snd (syncDeployment (trackerClient True) ''default'' ''web''
                   (world0 [] [web] emptyTracker)))
       = trace (world0 [] [web] emptyTracker) @ es @ [Api (IngressesCreate (svcNamespace ?s) ing)]"
    "ingName ing = svcName ?s" "ingNamespace ing = svcNamespace ?s"
    "ingAnnotations ing = [(''nginx.ingress.kubernetes.io/rewrite-target'', ''/'')]"
    "ingRules ing =
           [\<lparr>irHTTP = Some [\<lparr>hipPath = ''/'' @ svcName ?s,
                               hipPathType = Some ''Prefix'',
                               hipBackendService =
                                 Some \<lparr>isbName = svcName ?s, isbPortNumber = 80\<rparr>\<rparr>]\<rparr>]"
    by blast
  then show ?thesis using h
    by simp
qed

section \<open>Starting the workers\<close>

lemma WaitForCacheSync_False:
  "WaitForCacheSync env t0 = Returns (False, t) \<Longrightarrow> chClosed env t"
  by (auto simp: WaitForCacheSync_def chClosed_def split: if_splits option.splits)

lemma WaitForCacheSync_True:
  "WaitForCacheSync env t0 = Returns (True, t) \<Longrightarrow> HasSynced env t"
  by (auto simp: WaitForCacheSync_def HasSynced_def split: if_splits option.splits)

lemma WaitForCacheSync_not_Panics: "WaitForCacheSync env t0 \<noteq> Panics"
  by (auto simp: WaitForCacheSync_def split: if_splits option.splits)

lemma wait_Until_closed: "chClosed env t \<Longrightarrow> snd (wait_Until n client env t w) = w"
  by (cases n) simp_all

lemma run_blocks_in_barrier:
  "WaitForCacheSync env 0 = Blocks
     \<Longrightarrow> run turns client env w = (Some Blocks, Println ''starting controller'' w)"
  by (simp add: run_def Let_def)

text \<open>
  C8. If \<open>run\<close> adds a start of the worker or a \<open>Get\<close> on the queue to the trace, then
  \<open>WaitForCacheSync\<close> returned true, at a tick at which \<open>HasSynced\<close> answers true. \<open>run\<close>
  itself launches \<open>wait.Until\<close> whatever the barrier returned; but the barrier returns
  false only once \<open>ch\<close> is closed, and \<open>wait.Until\<close> looks at \<open>ch\<close> before it calls the
  worker. While neither the sync nor the close happens, \<open>run\<close> blocks in the barrier.
\<close>

theorem run_worker_only_after_sync:
  assumes "e = WorkerStart \<or> e = Queue QGet"
      and "e \<in> set (trace (snd (run turns client env w)))"
      and "e \<notin> set (trace w)"
  shows "\<exists>t. WaitForCacheSync env 0 = Returns (True, t) \<and> HasSynced env t"
proof (cases "WaitForCacheSync env 0")
  case (Returns p)
  obtain ok t where p: "p = (ok, t)" by (cases p)
  show ?thesis
  proof (cases ok)
    case True
    with Returns p WaitForCacheSync_True [of env 0 t] show ?thesis by simp
  next
    case False
    with Returns p have "chClosed env t"
      by (simp add: WaitForCacheSync_False)
    then have "trace (snd (run turns client env w))
                 = trace w @ [Print ''starting controller'' None,
                              Print ''waiting for cache to be synced'' None]"
      using Returns p False by (simp add: run_def Let_def wait_Until_closed)
    with assms show ?thesis by auto
  qed
next
  case Panics
  then show ?thesis by (simp add: WaitForCacheSync_not_Panics)
next
  case Blocks
  then have "trace (snd (run turns client env w)) = trace w @ [Print ''starting controller'' None]"
    by (simp add: run_def Let_def)
  with assms show ?thesis by auto
qed

theorem run_worker_only_after_sync_witness:
  "Queue QGet \<in> set (trace (snd (run 1 (trackerClient True) \<lparr>closedAt = Some 5, syncedAt = Some 2\<rparr>
                                   (world0 [Object web] [web] emptyTracker))))
   \<and> Queue QGet \<notin> set (trace (world0 [Object web] [web] emptyTracker))
   \<and> (\<exists>t. WaitForCacheSync \<lparr>closedAt = Some 5, syncedAt = Some 2\<rparr> 0 = Returns (True, t)
          \<and> HasSynced \<lparr>closedAt = Some 5, syncedAt = Some 2\<rparr> t)"
proof -
  have h1: "Queue QGet \<in> set (trace (snd (run 1 (trackerClient True)
                \<lparr>closedAt = Some 5, syncedAt = Some 2\<rparr>
                (world0 [Object web] [web] emptyTracker))))"
    by (simp add: run_def WaitForCacheSync_def HasSynced_def chClosed_def worker.simps model_defs)
  have h2: "Queue QGet \<notin> set (trace (world0 [Object web] [web] emptyTracker))"
    by (simp add: world0_def)
  from run_worker_only_after_sync [OF _ h1 h2] h1 h2 show ?thesis
    by blast
qed

section \<open>The worker loop as the program runs it\<close>









section \<open>A key that cannot be derived\<close>

lemma MetaNamespaceKeyFunc_error: "MetaNamespaceKeyFunc it = (key, Some e) \<Longrightarrow> key = []"
  by (cases it) (auto split: if_splits)

lemma processItem_with_key_error:
  assumes "queue w = it # rest" and "MetaNamespaceKeyFunc it = (key, Some e)"
  shows "processItem_with sync w =
          (case sync [] [] (Printf ''getting key from cache %s'' e
                              (emit (Queue QGet) (w\<lparr>queue := rest\<rparr>))) of
             (Returns None, w2) \<Rightarrow> (Returns True, queue_Forget it w2)
           | (Returns (Some e'), w2) \<Rightarrow>
               (Returns False, queue_Forget it (Printf ''syncing deployment %s'' e' w2))
           | (Panics, w2) \<Rightarrow> (Panics, queue_Forget it w2)
           | (Blocks, w2) \<Rightarrow> (Blocks, queue_Forget it w2))"
  using assms MetaNamespaceKeyFunc_error [OF assms(2)]
  by (simp add: processItem_with_def processItem_deferred_def queue_Get_def
      SplitMetaNamespaceKey_def Let_def split: prod.splits option.splits outcome.splits)

text \<open>
  C10. When \<open>MetaNamespaceKeyFunc\<close> returns an error for the dequeued item, in either
  file: the key is the empty string, which splits without error into the empty namespace
  and the empty name, and \<open>processItem\<close> is, after the print of the key error, the
  reconciliation of that empty identity, followed by the deferred \<open>Forget\<close>.
\<close>

theorem processItem_key_error_continues:
  assumes "queue w = it # rest" and "MetaNamespaceKeyFunc it = (key, Some e)"
  shows "key = [] \<and> SplitMetaNamespaceKey key = ([], [], None)
       \<and> processItem client w =
          (case syncDeployment client [] [] (Printf ''getting key from cache %s'' e
                              (emit (Queue QGet) (w\<lparr>queue := rest\<rparr>))) of
             (Returns None, w2) \<Rightarrow> (Returns True, queue_Forget it w2)
           | (Returns (Some e'), w2) \<Rightarrow>
               (Returns False, queue_Forget it (Printf ''syncing deployment %s'' e' w2))
           | (Panics, w2) \<Rightarrow> (Panics, queue_Forget it w2)
           | (Blocks, w2) \<Rightarrow> (Blocks, queue_Forget it w2))
       \<and> processItem_svc client w =
          (case syncDeployment_svc client [] [] (Printf ''getting key from cache %s'' e
                              (emit (Queue QGet) (w\<lparr>queue := rest\<rparr>))) of
             (Returns None, w2) \<Rightarrow> (Returns True, queue_Forget it w2)
           | (Returns (Some e'), w2) \<Rightarrow>
               (Returns False, queue_Forget it (Printf ''syncing deployment %s'' e' w2))
           | (Panics, w2) \<Rightarrow> (Panics, queue_Forget it w2)
           | (Blocks, w2) \<Rightarrow> (Blocks, queue_Forget it w2))"
proof -
  have k: "key = []"
    by (rule MetaNamespaceKeyFunc_error [OF assms(2)])
  have s: "SplitMetaNamespaceKey [] = ([], [], None)"
    by (simp add: SplitMetaNamespaceKey_def)
  show ?thesis
    unfolding processItem_def processItem_svc_def
    using k s processItem_with_key_error [OF assms] by simp
qed

theorem processItem_key_error_continues_witness:
  "queue (world0 [Tombstone ''default/web''] [web] emptyTracker) = Tombstone ''default/web'' # []
   \<and> MetaNamespaceKeyFunc (Tombstone ''default/web'') = ([], Some ObjectHasNoMeta)
   \<and> fst (processItem (trackerClient True) (world0 [Tombstone ''default/web''] [web] emptyTracker))
       = Panics
   \<and> trace (snd (processItem (trackerClient True)
                   (world0 [Tombstone ''default/web''] [web] emptyTracker)))
       = [Queue QGet, Print ''getting key from cache %s'' (Some ObjectHasNoMeta),
          Print ''getting deployment from lister %s'' (Some (ApiError NotFound)),
          Queue (QForget (Tombstone ''default/web''))]"
proof -
  have h1: "queue (world0 [Tombstone ''default/web''] [web] emptyTracker)
              = Tombstone ''default/web'' # []"
    by (simp add: world0_def)
  have h2: "MetaNamespaceKeyFunc (Tombstone ''default/web'') = ([], Some ObjectHasNoMeta)"
    by simp
  from processItem_key_error_continues [OF h1 h2, of "trackerClient True"] h1 h2
  show ?thesis
    by (simp add: syncDeployment_def lister_Get_def world0_def web_def Let_def Printf_def
        emit_def queue_Forget_def)
qed

end
